theory Spec2Isabelle
  imports Main "HOL-Library.Word"
begin

section \<open>Data model of package writer (secret.go)\<close>

text \<open>
  A Go byte slice. A nil slice and an empty, non-nil slice are different values in Go
  (both have length 0), and indexing a map at a missing key gives the nil slice, so
  the model keeps them apart: \<open>None\<close> is the nil slice.
\<close>

type_synonym byte = "8 word"

type_synonym bytes = "byte list option"

definition len :: "bytes \<Rightarrow> nat" where
  "len b = (case b of None \<Rightarrow> 0 | Some xs \<Rightarrow> length xs)"

text \<open>types.NamespacedName: the identifier of the secret.\<close>

record NamespacedName =
  Namespace :: string
  Name :: string

text \<open>
  corev1.Secret, restricted to the fields secret.go reads or writes: the namespace and
  name of its ObjectMeta and the Data map. A nil map is \<open>None\<close>; reading a Go map at
  a missing key gives the zero value of the element type, here the nil slice.
\<close>

record ObjectMeta =
  Namespace :: string
  Name :: string

record Secret =
  ObjectMeta :: ObjectMeta
  Data :: "(string \<rightharpoonup> bytes) option"

definition zero_Secret :: Secret where
  "zero_Secret =
     \<lparr>ObjectMeta = \<lparr>ObjectMeta.Namespace = [], ObjectMeta.Name = []\<rparr>, Data = None\<rparr>"

definition index :: "(string \<rightharpoonup> bytes) \<Rightarrow> string \<Rightarrow> bytes" where
  "index m k = (case m k of None \<Rightarrow> None | Some v \<Rightarrow> v)"

text \<open>
  Modelled from the spec: generator.Artifacts is declared in package generator, which is
  not among the sources. The spec's data model gives it three byte fields: the CA
  certificate, the server certificate and the server key; secret.go reads and writes
  exactly these three.
\<close>

record Artifacts =
  Key :: bytes
  Cert :: bytes
  CACert :: bytes

text \<open>
  Modelled from the spec: the three fixed well-known field names (CA certificate, server
  certificate, server key) are constants of package writer declared in a file that is
  not among the sources. They are three different names (Go rejects a map literal that
  repeats a constant key); the proofs below use nothing of them but that.
\<close>

definition CACertName :: string where
  "CACertName = ''ca-cert.pem''"

definition ServerKeyName :: string where
  "ServerKeyName = ''key.pem''"

definition ServerCertName :: string where
  "ServerCertName = ''cert.pem''"

subsection \<open>Errors\<close>

text \<open>
  Modelled from the spec: the error values. The backend classifies its errors into at
  least already-exists and not-found (a status error with that reason); every other
  error is opaque. \<open>errors_New\<close> is Go's errors.New. alreadyExistError and notFoundError
  are the two wrapper structs of package writer (declared outside secret.go); each holds
  one error, which is nil in the literal \<open>notFoundError{}\<close>.
\<close>

datatype StatusReason =
    StatusReasonUnknown
  | StatusReasonNotFound
  | StatusReasonAlreadyExists
  | StatusReasonConflict

datatype error =
    errors_New string
  | StatusError StatusReason
  | OtherError string
  | alreadyExistError "error option"
  | notFoundError "error option"

text \<open>
  Modelled from the spec: apierrors.IsAlreadyExists and apierrors.IsNotFound, the
  backend's two classifications. They look at the reason of a status error; nil and
  every other error have the unknown reason.
\<close>

fun ReasonForError :: "error option \<Rightarrow> StatusReason" where
  "ReasonForError (Some (StatusError r)) = r"
| "ReasonForError _ = StatusReasonUnknown"

definition IsAlreadyExists :: "error option \<Rightarrow> bool" where
  "IsAlreadyExists err = (ReasonForError err = StatusReasonAlreadyExists)"

definition IsNotFound :: "error option \<Rightarrow> bool" where
  "IsNotFound err = (ReasonForError err = StatusReasonNotFound)"

text \<open>A Go panic: the only one this file can raise is a nil dereference.\<close>

datatype go_panic = NilPointerDereference

subsection \<open>The collaborators and the world they act on\<close>

text \<open>
  The store client, the certificate generator, the YAML marshaller and the dry-run sink
  are interfaces implemented outside secret.go, so each is a parameter: a function on
  its own state (\<open>'s\<close> the backend, \<open>'g\<close> the generator, \<open>'k\<close> the sink). Every call
  that secret.go makes on a collaborator is recorded, in order, in \<open>calls\<close>.
\<close>

record 's Client =
  Get :: "NamespacedName \<Rightarrow> Secret \<Rightarrow> 's \<Rightarrow> (Secret \<times> error option) \<times> 's"
  Create :: "Secret option \<Rightarrow> 's \<Rightarrow> error option \<times> 's"
  Update :: "Secret option \<Rightarrow> 's \<Rightarrow> error option \<times> 's"

type_synonym 'g CertGenerator = "string \<Rightarrow> 'g \<Rightarrow> (Artifacts option \<times> error option) \<times> 'g"

type_synonym 'k Writer = "bytes \<Rightarrow> 'k \<Rightarrow> (int \<times> error option) \<times> 'k"

type_synonym Marshal = "Secret option \<Rightarrow> bytes \<times> error option"

datatype call =
    Generate_call string
  | Get_call NamespacedName
  | Create_call "Secret option"
  | Update_call "Secret option"
  | Marshal_call "Secret option"
  | Write_call bytes

record ('s, 'g, 'k) world =
  store :: 's
  gen_state :: 'g
  sink :: 'k
  calls :: "call list"

text \<open>
  SecretCertWriterOptions; a field that is nil in Go is \<open>None\<close>. secretCertWriter embeds
  the options and adds dnsName and dryrun.
\<close>

record ('s, 'g, 'k) SecretCertWriterOptions =
  Client :: "'s Client option"
  CertGenerator :: "'g CertGenerator option"
  Secret :: "NamespacedName option"
  Writer :: "'k Writer option"

record ('s, 'g, 'k) secretCertWriter = "('s, 'g, 'k) SecretCertWriterOptions" +
  dnsName :: string
  dryrun :: bool

section \<open>The functions of secret.go\<close>

text \<open>
  setDefaults. The self-signed generator and os.Stdout are values of other packages:
  they are the parameters \<open>SelfSignedCertGenerator\<close> and \<open>Stdout\<close>.
\<close>

definition setDefaults ::
  "'g CertGenerator \<Rightarrow> 'k Writer \<Rightarrow> ('s, 'g, 'k) SecretCertWriterOptions
     \<Rightarrow> ('s, 'g, 'k) SecretCertWriterOptions" where
  "setDefaults SelfSignedCertGenerator Stdout ops =
     (let ops1 = (case CertGenerator ops of
                    None \<Rightarrow> ops\<lparr>CertGenerator := Some SelfSignedCertGenerator\<rparr>
                  | Some _ \<Rightarrow> ops)
      in case Writer ops1 of
           None \<Rightarrow> ops1\<lparr>Writer := Some Stdout\<rparr>
         | Some _ \<Rightarrow> ops1)"

definition validate :: "('s, 'g, 'k) SecretCertWriterOptions \<Rightarrow> error option" where
  "validate ops =
     (case Client ops of
        None \<Rightarrow> Some (errors_New ''client must be set in SecretCertWriterOptions'')
      | Some _ \<Rightarrow>
          (case Secret ops of
             None \<Rightarrow> Some (errors_New ''secret must be set in SecretCertWriterOptions'')
           | Some _ \<Rightarrow> None))"

definition NewSecretCertWriter ::
  "'g CertGenerator \<Rightarrow> 'k Writer \<Rightarrow> ('s, 'g, 'k) SecretCertWriterOptions
     \<Rightarrow> ('s, 'g, 'k) secretCertWriter option \<times> error option" where
  "NewSecretCertWriter SelfSignedCertGenerator Stdout ops0 =
     (let ops = setDefaults SelfSignedCertGenerator Stdout ops0
      in case validate ops of
           Some err \<Rightarrow> (None, Some err)
         | None \<Rightarrow>
             (Some \<lparr>Client = Client ops, CertGenerator = CertGenerator ops,
                     Secret = Secret ops, Writer = Writer ops,
                     dnsName = [], dryrun = False\<rparr>,
              None))"

definition secretToCerts :: "Secret \<Rightarrow> Artifacts option" where
  "secretToCerts secret =
     (case Data secret of
        None \<Rightarrow> None
      | Some d \<Rightarrow>
          Some \<lparr>Key = index d ServerKeyName,
                Cert = index d ServerCertName,
                CACert = index d CACertName\<rparr>)"

definition certsToSecret :: "Artifacts \<Rightarrow> NamespacedName \<Rightarrow> Secret" where
  "certsToSecret certs sec =
     \<lparr>ObjectMeta = \<lparr>ObjectMeta.Namespace = NamespacedName.Namespace sec,
                     ObjectMeta.Name = NamespacedName.Name sec\<rparr>,
      Data = Some [CACertName \<mapsto> CACert certs,
                   ServerKeyName \<mapsto> Key certs,
                   ServerCertName \<mapsto> Cert certs]\<rparr>"

text \<open>
  buildSecret. The generator is called first; a nil generator, a nil identifier and a
  nil bundle returned with a nil error are nil dereferences.
\<close>

definition buildSecret ::
  "('s, 'g, 'k) secretCertWriter \<Rightarrow> ('s, 'g, 'k) world
     \<Rightarrow> (go_panic + (Secret option \<times> Artifacts option \<times> error option)) \<times> ('s, 'g, 'k) world" where
  "buildSecret s st =
     (case CertGenerator s of
        None \<Rightarrow> (Inl NilPointerDereference, st)
      | Some generate \<Rightarrow>
          (case generate (dnsName s) (gen_state st) of
             ((certs, err), g') \<Rightarrow>
               (let st1 = st\<lparr>gen_state := g',
                             calls := calls st @ [Generate_call (dnsName s)]\<rparr>
                in case err of
                     Some e \<Rightarrow> (Inr (None, None, err), st1)
                   | None \<Rightarrow>
                       (case (certs, Secret s) of
                          (Some c, Some sec) \<Rightarrow>
                            (Inr (Some (certsToSecret c sec), certs, err), st1)
                        | _ \<Rightarrow> (Inl NilPointerDereference, st1)))))"

definition dryrunWrite ::
  "Marshal \<Rightarrow> ('s, 'g, 'k) secretCertWriter \<Rightarrow> Secret option \<Rightarrow> ('s, 'g, 'k) world
     \<Rightarrow> (go_panic + error option) \<times> ('s, 'g, 'k) world" where
  "dryrunWrite yaml_Marshal s secret st =
     (case yaml_Marshal secret of
        (sec, err) \<Rightarrow>
          (let st1 = st\<lparr>calls := calls st @ [Marshal_call secret]\<rparr>
           in case err of
                Some e \<Rightarrow> (Inr err, st1)
              | None \<Rightarrow>
                  (case Writer s of
                     None \<Rightarrow> (Inl NilPointerDereference, st1)
                   | Some wr \<Rightarrow>
                       (case wr sec (sink st1) of
                          ((n, err'), k') \<Rightarrow>
                            (Inr err',
                             st1\<lparr>sink := k', calls := calls st1 @ [Write_call sec]\<rparr>)))))"

definition "write" ::
  "Marshal \<Rightarrow> ('s, 'g, 'k) secretCertWriter \<Rightarrow> ('s, 'g, 'k) world
     \<Rightarrow> (go_panic + (Artifacts option \<times> error option)) \<times> ('s, 'g, 'k) world" where
  "write yaml_Marshal s st =
     (case buildSecret s st of
        (Inl p, st1) \<Rightarrow> (Inl p, st1)
      | (Inr (secret, certs, err), st1) \<Rightarrow>
          (case err of
             Some e \<Rightarrow> (Inr (None, err), st1)
           | None \<Rightarrow>
               if dryrun s then
                 (case dryrunWrite yaml_Marshal s secret st1 of
                    (Inl p, st2) \<Rightarrow> (Inl p, st2)
                  | (Inr err', st2) \<Rightarrow> (Inr (certs, err'), st2))
               else
                 (case Client s of
                    None \<Rightarrow> (Inl NilPointerDereference, st1)
                  | Some c \<Rightarrow>
                      (case Create c secret (store st1) of
                         (err', s') \<Rightarrow>
                           (let st2 = st1\<lparr>store := s',
                                          calls := calls st1 @ [Create_call secret]\<rparr>
                            in if IsAlreadyExists err'
                               then (Inr (None, Some (alreadyExistError err')), st2)
                               else (Inr (certs, err'), st2))))))"

definition overwrite ::
  "Marshal \<Rightarrow> ('s, 'g, 'k) secretCertWriter \<Rightarrow> ('s, 'g, 'k) world
     \<Rightarrow> (go_panic + (Artifacts option \<times> error option)) \<times> ('s, 'g, 'k) world" where
  "overwrite yaml_Marshal s st =
     (case buildSecret s st of
        (Inl p, st1) \<Rightarrow> (Inl p, st1)
      | (Inr (secret, certs, err), st1) \<Rightarrow>
          (case err of
             Some e \<Rightarrow> (Inr (None, err), st1)
           | None \<Rightarrow>
               if dryrun s then
                 (case dryrunWrite yaml_Marshal s secret st1 of
                    (Inl p, st2) \<Rightarrow> (Inl p, st2)
                  | (Inr err', st2) \<Rightarrow> (Inr (certs, err'), st2))
               else
                 (case Client s of
                    None \<Rightarrow> (Inl NilPointerDereference, st1)
                  | Some c \<Rightarrow>
                      (case Update c secret (store st1) of
                         (err', s') \<Rightarrow>
                           (Inr (certs, err'),
                            st1\<lparr>store := s',
                                calls := calls st1 @ [Update_call secret]\<rparr>)))))"

definition read ::
  "('s, 'g, 'k) secretCertWriter \<Rightarrow> ('s, 'g, 'k) world
     \<Rightarrow> (go_panic + (Artifacts option \<times> error option)) \<times> ('s, 'g, 'k) world" where
  "read s st =
     (if dryrun s then (Inr (None, Some (notFoundError None)), st)
      else
        (case (Client s, Secret s) of
           (Some c, Some key) \<Rightarrow>
             (case Get c key zero_Secret (store st) of
                ((secret, err), s') \<Rightarrow>
                  (let st1 = st\<lparr>store := s', calls := calls st @ [Get_call key]\<rparr>
                   in if IsNotFound err
                      then (Inr (None, Some (notFoundError err)), st1)
                      else (Inr (secretToCerts secret, err), st1)))
         | _ \<Rightarrow> (Inl NilPointerDereference, st)))"

text \<open>
  EnsureCert stores the two call parameters in the writer and hands over to
  handleCommon, which is not in secret.go and is taken as a parameter.
\<close>

definition EnsureCert ::
  "(string \<Rightarrow> ('s, 'g, 'k) secretCertWriter \<Rightarrow> 'r) \<Rightarrow> ('s, 'g, 'k) secretCertWriter
     \<Rightarrow> string \<Rightarrow> bool \<Rightarrow> 'r" where
  "EnsureCert handleCommon s dnsName' dryrun' =
     (let s1 = s\<lparr>dryrun := dryrun'\<rparr>; s2 = s1\<lparr>dnsName := dnsName'\<rparr>
      in handleCommon (dnsName s2) s2)"

definition Inject :: "'o list \<Rightarrow> error option" where
  "Inject objs = None"

section \<open>Vocabulary of the properties\<close>

text \<open>
  Modelled from the spec: the two error kinds of package writer are recognised by a type
  assertion on the wrapper struct (the helpers are declared outside secret.go).
\<close>

fun isAlreadyExists :: "error option \<Rightarrow> bool" where
  "isAlreadyExists (Some (alreadyExistError _)) = True"
| "isAlreadyExists _ = False"

fun isNotFound :: "error option \<Rightarrow> bool" where
  "isNotFound (Some (notFoundError _)) = True"
| "isNotFound _ = False"

text \<open>The calls made between two worlds, and the kinds of call.\<close>

definition new_calls :: "('s, 'g, 'k) world \<Rightarrow> ('s, 'g, 'k) world \<Rightarrow> call list" where
  "new_calls st st' = drop (length (calls st)) (calls st')"

fun is_store_call :: "call \<Rightarrow> bool" where
  "is_store_call (Get_call _) = True"
| "is_store_call (Create_call _) = True"
| "is_store_call (Update_call _) = True"
| "is_store_call _ = False"



text \<open>The records handed to the store or to the marshaller in a list of calls.\<close>

fun records_of :: "call list \<Rightarrow> Secret option list" where
  "records_of [] = []"
| "records_of (Create_call r # cs) = r # records_of cs"
| "records_of (Update_call r # cs) = r # records_of cs"
| "records_of (Marshal_call r # cs) = r # records_of cs"
| "records_of (_ # cs) = records_of cs"

text \<open>
  The invariant of a record produced by this file: it is a record (not nil), carries the
  identifier's namespace and name, and its data mapping is present and has exactly the
  three well-known keys.
\<close>

definition core_record :: "NamespacedName \<Rightarrow> Secret option \<Rightarrow> bool" where
  "core_record sec r =
     (case r of
        None \<Rightarrow> False
      | Some x \<Rightarrow>
          ObjectMeta.Namespace (ObjectMeta x) = NamespacedName.Namespace sec \<and>
          ObjectMeta.Name (ObjectMeta x) = NamespacedName.Name sec \<and>
          (case Data x of
             None \<Rightarrow> False
           | Some d \<Rightarrow> dom d = {CACertName, ServerCertName, ServerKeyName}))"

section \<open>Concrete collaborators for the examples\<close>

text \<open>
  Modelled from the spec: a RecordStore kept in memory, keyed by namespace and name.
  get reports not-found for a missing record; create reports already-exists for a
  present one and stores the record otherwise; update replaces a present record. A
  rejected call leaves the store as it was.
\<close>

definition key_of :: "Secret \<Rightarrow> NamespacedName" where
  "key_of r = \<lparr>NamespacedName.Namespace = ObjectMeta.Namespace (ObjectMeta r),
               NamespacedName.Name = ObjectMeta.Name (ObjectMeta r)\<rparr>"

definition mem_Get ::
  "NamespacedName \<Rightarrow> Secret \<Rightarrow> (NamespacedName \<rightharpoonup> Secret)
     \<Rightarrow> (Secret \<times> error option) \<times> (NamespacedName \<rightharpoonup> Secret)" where
  "mem_Get key obj m =
     (case m key of
        None \<Rightarrow> ((obj, Some (StatusError StatusReasonNotFound)), m)
      | Some r \<Rightarrow> ((r, None), m))"

definition mem_Create ::
  "Secret option \<Rightarrow> (NamespacedName \<rightharpoonup> Secret) \<Rightarrow> error option \<times> (NamespacedName \<rightharpoonup> Secret)" where
  "mem_Create obj m =
     (case obj of
        None \<Rightarrow> (Some (OtherError ''nil object''), m)
      | Some r \<Rightarrow>
          (case m (key_of r) of
             Some _ \<Rightarrow> (Some (StatusError StatusReasonAlreadyExists), m)
           | None \<Rightarrow> (None, m(key_of r \<mapsto> r))))"

definition mem_Update ::
  "Secret option \<Rightarrow> (NamespacedName \<rightharpoonup> Secret) \<Rightarrow> error option \<times> (NamespacedName \<rightharpoonup> Secret)" where
  "mem_Update obj m =
     (case obj of
        None \<Rightarrow> (Some (OtherError ''nil object''), m)
      | Some r \<Rightarrow>
          (case m (key_of r) of
             None \<Rightarrow> (Some (StatusError StatusReasonNotFound), m)
           | Some _ \<Rightarrow> (None, m(key_of r \<mapsto> r))))"

definition mem_Client :: "(NamespacedName \<rightharpoonup> Secret) Client" where
  "mem_Client = \<lparr>Get = mem_Get, Create = mem_Create, Update = mem_Update\<rparr>"

text \<open>
  The scenario of the spec: identifier ns/webhook-cert, a generator that returns the
  bundle CA, CERT, KEY (in ASCII) and counts its invocations, a generator that fails, a
  marshaller that renders the three fields one after the other, a sink that appends
  what it is given, and a sink that fails.
\<close>

definition ex_id :: NamespacedName where
  "ex_id = \<lparr>NamespacedName.Namespace = ''ns'', NamespacedName.Name = ''webhook-cert''\<rparr>"

definition ex_certs :: Artifacts where
  "ex_certs = \<lparr>Key = Some [75, 69, 89], Cert = Some [67, 69, 82, 84], CACert = Some [67, 65]\<rparr>"

definition ex_generate :: "nat CertGenerator" where
  "ex_generate dns n = ((Some ex_certs, None), Suc n)"

definition failing_generate :: "nat CertGenerator" where
  "failing_generate dns n = ((None, Some (OtherError ''no entropy'')), Suc n)"

definition raw :: "bytes \<Rightarrow> byte list" where
  "raw b = (case b of None \<Rightarrow> [] | Some xs \<Rightarrow> xs)"

definition ex_Marshal :: Marshal where
  "ex_Marshal secret =
     (case secret of
        None \<Rightarrow> (Some [110, 117, 108, 108], None)
      | Some r \<Rightarrow>
          (case Data r of
             None \<Rightarrow> (Some [], None)
           | Some d \<Rightarrow>
               (Some (raw (index d CACertName) @ raw (index d ServerCertName)
                        @ raw (index d ServerKeyName)), None)))"

definition ex_sink :: "(byte list) Writer" where
  "ex_sink b k = ((int (len b), None), k @ raw b)"

definition failing_sink :: "(byte list) Writer" where
  "failing_sink b k = ((0, Some (OtherError ''closed pipe'')), k)"

definition ex_writer :: "(NamespacedName \<rightharpoonup> Secret, nat, byte list) secretCertWriter" where
  "ex_writer =
     \<lparr>Client = Some mem_Client, CertGenerator = Some ex_generate, Secret = Some ex_id,
      Writer = Some ex_sink, dnsName = ''svc.ns.svc'', dryrun = False\<rparr>"

definition ex_old_secret :: Secret where
  "ex_old_secret =
     \<lparr>ObjectMeta = \<lparr>ObjectMeta.Namespace = ''ns'', ObjectMeta.Name = ''webhook-cert''\<rparr>,
      Data = Some [CACertName \<mapsto> Some [1], ServerKeyName \<mapsto> Some [2],
                   ServerCertName \<mapsto> Some [3]]\<rparr>"

definition empty_world :: "(NamespacedName \<rightharpoonup> Secret, nat, byte list) world" where
  "empty_world = \<lparr>store = Map.empty, gen_state = 0, sink = [], calls = []\<rparr>"

definition held_world :: "(NamespacedName \<rightharpoonup> Secret, nat, byte list) world" where
  "held_world = \<lparr>store = [ex_id \<mapsto> ex_old_secret], gen_state = 0, sink = [], calls = []\<rparr>"

section \<open>Auxiliary facts\<close>

lemma well_known_names_distinct:
  "CACertName \<noteq> ServerKeyName" "CACertName \<noteq> ServerCertName"
  "ServerKeyName \<noteq> ServerCertName"
  by (simp_all add: CACertName_def ServerKeyName_def ServerCertName_def)

text \<open>
  A writer returned by the constructor has its four option fields set, and EnsureCert
  changes dnsName and dryrun only: the properties below take the fields they need as
  set.
\<close>

lemma NewSecretCertWriter_fields_set:
  assumes "NewSecretCertWriter SelfSignedCertGenerator Stdout ops = (Some s, err)"
  shows "Client s \<noteq> None \<and> CertGenerator s \<noteq> None \<and> Secret s \<noteq> None \<and> Writer s \<noteq> None
         \<and> err = None"
  using assms
  by (auto simp add: NewSecretCertWriter_def setDefaults_def validate_def Let_def
      split: option.splits)

lemma EnsureCert_keeps_options:
  "EnsureCert (\<lambda>d s'. s') s d b = s\<lparr>dnsName := d, dryrun := b\<rparr>"
  by (simp add: EnsureCert_def)

subsection \<open>buildSecret and dryrunWrite\<close>

lemma buildSecret_ok:
  assumes "CertGenerator s = Some generate" and "Secret s = Some sec"
    and "generate (dnsName s) (gen_state st) = ((Some certs, None), g')"
  shows "buildSecret s st =
           (Inr (Some (certsToSecret certs sec), Some certs, None),
            st\<lparr>gen_state := g', calls := calls st @ [Generate_call (dnsName s)]\<rparr>)"
  using assms by (simp add: buildSecret_def)

lemma buildSecret_err:
  assumes "CertGenerator s = Some generate"
    and "generate (dnsName s) (gen_state st) = ((certs, Some e), g')"
  shows "buildSecret s st =
           (Inr (None, None, Some e),
            st\<lparr>gen_state := g', calls := calls st @ [Generate_call (dnsName s)]\<rparr>)"
  using assms by (simp add: buildSecret_def)








lemma buildSecret_frame:
  "store (snd (buildSecret s st)) = store st \<and>
   sink (snd (buildSecret s st)) = sink st \<and>
   (calls (snd (buildSecret s st)) = calls st \<or>
    calls (snd (buildSecret s st)) = calls st @ [Generate_call (dnsName s)])"
  by (simp add: buildSecret_def Let_def split: prod.splits option.splits)


lemma write_nondry_unfold:
  assumes "\<not> dryrun s" and "Client s = Some c"
  shows "write m s st =
     (case buildSecret s st of
        (Inl p, st1) \<Rightarrow> (Inl p, st1)
      | (Inr (secret, certs, err), st1) \<Rightarrow>
          (case err of
             Some e \<Rightarrow> (Inr (None, err), st1)
           | None \<Rightarrow>
               (if IsAlreadyExists (fst (Create c secret (store st1)))
                then Inr (None, Some (alreadyExistError (fst (Create c secret (store st1)))))
                else Inr (certs, fst (Create c secret (store st1))),
                st1\<lparr>store := snd (Create c secret (store st1)),
                    calls := calls st1 @ [Create_call secret]\<rparr>)))"
  using assms
  by (simp add: write_def Let_def split: prod.splits sum.splits option.splits)



lemma write_calls_Create:
  assumes "\<not> dryrun s" and "Client s = Some c" and "CertGenerator s = Some generate"
    and "Secret s = Some sec"
    and "generate (dnsName s) (gen_state st) = ((Some certs, None), g')"
  shows "Create_call (Some (certsToSecret certs sec))
           \<in> set (new_calls st (snd (write m s st)))"
  using assms(1,2)
  by (simp add: write_def buildSecret_ok [OF assms(3,4,5)] new_calls_def Let_def
      split: prod.splits)

lemma core_record_certsToSecret:
  "core_record sec (Some (certsToSecret certs sec))"
  by (auto simp add: core_record_def certsToSecret_def)

lemma write_records:
  assumes "Secret s = Some sec"
  shows "\<exists>cs. calls (snd (write m s st)) = calls st @ cs \<and>
              (\<forall>r \<in> set (records_of cs). core_record sec r)"
  using assms core_record_certsToSecret [of sec]
  by (auto simp add: write_def buildSecret_def dryrunWrite_def Let_def
      split: prod.splits option.splits sum.splits)

lemma overwrite_records:
  assumes "Secret s = Some sec"
  shows "\<exists>cs. calls (snd (overwrite m s st)) = calls st @ cs \<and>
              (\<forall>r \<in> set (records_of cs). core_record sec r)"
  using assms core_record_certsToSecret [of sec]
  by (auto simp add: overwrite_def buildSecret_def dryrunWrite_def Let_def
      split: prod.splits option.splits sum.splits)

subsection \<open>The examples, evaluated\<close>

lemmas ex_defs =
  ex_writer_def ex_generate_def failing_generate_def ex_Marshal_def ex_sink_def
  failing_sink_def
  held_world_def empty_world_def ex_id_def ex_certs_def ex_old_secret_def
  mem_Client_def mem_Get_def mem_Create_def mem_Update_def key_of_def
  certsToSecret_def secretToCerts_def index_def raw_def len_def zero_Secret_def
  CACertName_def ServerKeyName_def ServerCertName_def

lemma ex_rendering:
  "ex_Marshal (Some (certsToSecret ex_certs ex_id))
     = (Some [67, 65, 67, 69, 82, 84, 75, 69, 89], None)"
  by (simp add: ex_defs)

lemma ex_write_held:
  "write ex_Marshal ex_writer held_world =
     (Inr (None, Some (alreadyExistError (Some (StatusError StatusReasonAlreadyExists)))),
      held_world\<lparr>gen_state := 1,
                 calls := [Generate_call ''svc.ns.svc'',
                           Create_call (Some (certsToSecret ex_certs ex_id))]\<rparr>)"
  by (simp add: write_def buildSecret_def IsAlreadyExists_def ex_defs)

lemma ex_overwrite_empty:
  "overwrite ex_Marshal ex_writer empty_world =
     (Inr (Some ex_certs, Some (StatusError StatusReasonNotFound)),
      empty_world\<lparr>gen_state := 1,
                  calls := [Generate_call ''svc.ns.svc'',
                            Update_call (Some (certsToSecret ex_certs ex_id))]\<rparr>)"
  by (simp add: overwrite_def buildSecret_def ex_defs)

section \<open>The properties\<close>

text \<open>
  C1. Converting a bundle to a record under any identifier and converting the record
  back gives the bundle again: the CA certificate, the server certificate and the
  server key are preserved (nil slices as nil, empty slices as empty).
\<close>

theorem certs_roundtrip:
  "secretToCerts (certsToSecret B I) = Some B"
  using well_known_names_distinct
  by (simp add: secretToCerts_def certsToSecret_def index_def)



text \<open>
  C3. Conflict surfacing. For a writer that is not in dry-run mode, when write reaches
  its Create and the backend, which already holds a record, rejects that Create as
  already existing and stays as it is, write returns a nil bundle with the backend's
  error wrapped as alreadyExistError, and the store after write is the store before
  it: the rejected Create is the only store call, so the record held is unchanged.
  (write reaches Create whenever the generator returns a bundle, see
  \<open>write_calls_Create\<close>.)
\<close>

theorem write_conflict:
  assumes "\<not> dryrun s" and "Client s = Some c"
    and "Create_call r \<in> set (new_calls st (snd (write yaml_Marshal s st)))"
    and "Create c r (store st) = (Some e, store st)"
    and "IsAlreadyExists (Some e)"
  shows "fst (write yaml_Marshal s st) = Inr (None, Some (alreadyExistError (Some e))) \<and>
         isAlreadyExists (snd (projr (fst (write yaml_Marshal s st)))) \<and>
         store (snd (write yaml_Marshal s st)) = store st \<and>
         filter is_store_call (new_calls st (snd (write yaml_Marshal s st))) = [Create_call r]"
proof -
  obtain res st1 where b: "buildSecret s st = (res, st1)" by (cases "buildSecret s st")
  from buildSecret_frame [of s st] b
  have st1: "store st1 = store st"
    "calls st1 = calls st \<or> calls st1 = calls st @ [Generate_call (dnsName s)]"
    by simp_all
  show ?thesis
  proof (cases res)
    case (Inl p)
    with b have "snd (write yaml_Marshal s st) = st1"
      by (simp add: write_nondry_unfold [OF assms(1,2)])
    with st1(2) assms(3) show ?thesis by (auto simp add: new_calls_def)
  next
    case (Inr t)
    obtain secret certs err where t: "t = (secret, certs, err)" by (cases t)
    show ?thesis
    proof (cases err)
      case (Some e')
      with b Inr t have "snd (write yaml_Marshal s st) = st1"
        by (simp add: write_nondry_unfold [OF assms(1,2)])
      with st1(2) assms(3) show ?thesis by (auto simp add: new_calls_def)
    next
      case None
      have w: "write yaml_Marshal s st =
          (if IsAlreadyExists (fst (Create c secret (store st)))
           then Inr (None, Some (alreadyExistError (fst (Create c secret (store st)))))
           else Inr (certs, fst (Create c secret (store st))),
           st1\<lparr>store := snd (Create c secret (store st)),
               calls := calls st1 @ [Create_call secret]\<rparr>)"
        using b Inr t None st1(1) by (simp add: write_nondry_unfold [OF assms(1,2)])
      have r: "r = secret"
        using assms(3) st1(2) by (auto simp add: w new_calls_def)
      from st1(2) have "filter is_store_call (new_calls st (snd (write yaml_Marshal s st)))
          = [Create_call r]"
        by (auto simp add: w r new_calls_def)
      then show ?thesis
        using assms(4,5) by (simp add: w r)
    qed
  qed
qed

text \<open>
  The scenario with a store that holds a record at the identifier: the record is still
  there after write.
\<close>

theorem write_conflict_witness:
  "\<not> dryrun ex_writer \<and>
   store held_world ex_id = Some ex_old_secret \<and>
   Create_call (Some (certsToSecret ex_certs ex_id))
     \<in> set (new_calls held_world (snd (write ex_Marshal ex_writer held_world))) \<and>
   Create mem_Client (Some (certsToSecret ex_certs ex_id)) (store held_world)
     = (Some (StatusError StatusReasonAlreadyExists), store held_world) \<and>
   IsAlreadyExists (Some (StatusError StatusReasonAlreadyExists)) \<and>
   fst (write ex_Marshal ex_writer held_world)
     = Inr (None, Some (alreadyExistError (Some (StatusError StatusReasonAlreadyExists)))) \<and>
   store (snd (write ex_Marshal ex_writer held_world)) = [ex_id \<mapsto> ex_old_secret] \<and>
   store (snd (write ex_Marshal ex_writer held_world)) ex_id = Some ex_old_secret"
proof -
  have h: "\<not> dryrun ex_writer" "Client ex_writer = Some mem_Client"
    by (simp_all add: ex_writer_def)
  have r: "Create_call (Some (certsToSecret ex_certs ex_id))
     \<in> set (new_calls held_world (snd (write ex_Marshal ex_writer held_world)))"
    by (simp add: ex_write_held new_calls_def) (simp add: held_world_def)
  have c: "Create mem_Client (Some (certsToSecret ex_certs ex_id)) (store held_world)
             = (Some (StatusError StatusReasonAlreadyExists), store held_world)"
    by (simp add: ex_defs)
  have e: "IsAlreadyExists (Some (StatusError StatusReasonAlreadyExists))"
    by (simp add: IsAlreadyExists_def)
  have "fst (write ex_Marshal ex_writer held_world)
          = Inr (None, Some (alreadyExistError (Some (StatusError StatusReasonAlreadyExists)))) \<and>
        store (snd (write ex_Marshal ex_writer held_world)) = store held_world"
    using write_conflict [where s = ex_writer and c = mem_Client and st = held_world
        and r = "Some (certsToSecret ex_certs ex_id)"
        and e = "StatusError StatusReasonAlreadyExists" and yaml_Marshal = ex_Marshal] h r c e
    by simp
  with h r c e show ?thesis by (simp add: held_world_def)
qed

text \<open>
  C4. For a writer that is not in dry-run mode and whose backend reports not-found on
  the Get of the configured identifier, read returns a nil bundle and the backend's
  error wrapped as notFoundError.
\<close>

theorem read_not_found:
  assumes "\<not> dryrun s" and "Client s = Some c" and "Secret s = Some key"
    and "Get c key zero_Secret (store st) = ((secret, err), s')"
    and "IsNotFound err"
  shows "read s st =
           (Inr (None, Some (notFoundError err)),
            st\<lparr>store := s', calls := calls st @ [Get_call key]\<rparr>) \<and>
         isNotFound (snd (projr (fst (read s st))))"
  using assms by (simp add: read_def)

theorem read_not_found_witness:
  "\<not> dryrun ex_writer \<and>
   store empty_world ex_id = None \<and>
   IsNotFound (Some (StatusError StatusReasonNotFound)) \<and>
   read ex_writer empty_world =
     (Inr (None, Some (notFoundError (Some (StatusError StatusReasonNotFound)))),
      empty_world\<lparr>calls := [Get_call ex_id]\<rparr>)"
proof -
  have h: "\<not> dryrun ex_writer" "Client ex_writer = Some mem_Client"
    "Secret ex_writer = Some ex_id"
    by (simp_all add: ex_writer_def)
  have g: "Get mem_Client ex_id zero_Secret (store empty_world)
             = ((zero_Secret, Some (StatusError StatusReasonNotFound)), store empty_world)"
    by (simp add: mem_Client_def mem_Get_def empty_world_def)
  have e: "IsNotFound (Some (StatusError StatusReasonNotFound))"
    by (simp add: IsNotFound_def)
  from read_not_found [OF h g e] h e show ?thesis
    by (simp add: empty_world_def)
qed

text \<open>
  C5. secretToCerts returns nil exactly when the record's data mapping is nil. A
  present but empty mapping gives a bundle of three nil (length 0) fields, and a
  mapping that holds the three well-known keys with empty byte sequences gives a bundle
  of three empty fields.
\<close>

theorem secretToCerts_absent_iff:
  "(secretToCerts secret = None) = (Data secret = None) \<and>
   secretToCerts (secret\<lparr>Data := Some Map.empty\<rparr>)
     = Some \<lparr>Key = None, Cert = None, CACert = None\<rparr> \<and>
   secretToCerts (secret\<lparr>Data := Some [CACertName \<mapsto> Some [], ServerCertName \<mapsto> Some [],
                                         ServerKeyName \<mapsto> Some []]\<rparr>)
     = Some \<lparr>Key = Some [], Cert = Some [], CACert = Some []\<rparr> \<and>
   len None = 0 \<and> len (Some []) = 0"
  using well_known_names_distinct
  by (simp add: secretToCerts_def index_def len_def split: option.splits)

text \<open>
  C6. In dry-run mode read returns a nil bundle and the error notFoundError{} and
  leaves the world as it was: it makes no call, so no Get reaches the backend.
\<close>

theorem read_dryrun_absent:
  assumes "dryrun s"
  shows "read s st = (Inr (None, Some (notFoundError None)), st) \<and>
         isNotFound (snd (projr (fst (read s st)))) \<and>
         new_calls st (snd (read s st)) = []"
  using assms by (simp add: read_def new_calls_def)

theorem read_dryrun_absent_witness:
  "dryrun (ex_writer\<lparr>dryrun := True\<rparr>) \<and>
   read (ex_writer\<lparr>dryrun := True\<rparr>) held_world
     = (Inr (None, Some (notFoundError None)), held_world)"
proof -
  have h: "dryrun (ex_writer\<lparr>dryrun := True\<rparr>)" by simp
  from read_dryrun_absent [OF h, of held_world] h show ?thesis by simp
qed

text \<open>
  C7. NewSecretCertWriter returns no writer and an errors.New error exactly when the
  client or the secret identifier of the options is nil. Otherwise it returns a writer
  and no error; the writer has the given client and identifier, the given generator or
  the self-signed one when none was given, the given sink or standard output when none
  was given, an empty DNS name and dryrun off.
\<close>

theorem NewSecretCertWriter_contract:
  "NewSecretCertWriter SelfSignedCertGenerator Stdout ops =
     (if Client ops = None
      then (None, Some (errors_New ''client must be set in SecretCertWriterOptions''))
      else if Secret ops = None
      then (None, Some (errors_New ''secret must be set in SecretCertWriterOptions''))
      else (Some \<lparr>Client = Client ops,
                  CertGenerator = Some (case CertGenerator ops of
                                          None \<Rightarrow> SelfSignedCertGenerator | Some g \<Rightarrow> g),
                  Secret = Secret ops,
                  Writer = Some (case Writer ops of None \<Rightarrow> Stdout | Some w \<Rightarrow> w),
                  dnsName = [], dryrun = False\<rparr>, None))
   \<and> (fst (NewSecretCertWriter SelfSignedCertGenerator Stdout ops) = None)
       = (Client ops = None \<or> Secret ops = None)
   \<and> (snd (NewSecretCertWriter SelfSignedCertGenerator Stdout ops) \<noteq> None)
       = (Client ops = None \<or> Secret ops = None)"
  by (simp add: NewSecretCertWriter_def setDefaults_def validate_def Let_def
      split: option.splits)

text \<open>
  C8. The record certsToSecret builds carries the identifier's namespace and name and
  a data mapping that is present and has exactly the three (distinct) well-known keys.
  Every record that write or overwrite hands to Create, to Update or to the marshaller
  is such a record for the configured identifier.
\<close>

theorem produced_records_invariant:
  assumes "Secret s = Some sec"
  shows "core_record sec (Some (certsToSecret certs sec)) \<and>
         card {CACertName, ServerCertName, ServerKeyName} = 3 \<and>
         (\<forall>op \<in> {write yaml_Marshal, overwrite yaml_Marshal}.
            \<forall>r \<in> set (records_of (new_calls st (snd (op s st)))). core_record sec r)"
proof -
  from write_records [OF assms, of yaml_Marshal st] overwrite_records [OF assms, of yaml_Marshal st]
  have "\<forall>r \<in> set (records_of (new_calls st (snd (write yaml_Marshal s st)))). core_record sec r"
    and "\<forall>r \<in> set (records_of (new_calls st (snd (overwrite yaml_Marshal s st)))). core_record sec r"
    by (auto simp add: new_calls_def)
  moreover have "card {CACertName, ServerCertName, ServerKeyName} = 3"
    using well_known_names_distinct by simp
  ultimately show ?thesis
    using core_record_certsToSecret [of sec certs] by simp
qed

theorem produced_records_invariant_witness:
  "Secret ex_writer = Some ex_id \<and>
   core_record ex_id (Some (certsToSecret ex_certs ex_id)) \<and>
   records_of (new_calls held_world (snd (write ex_Marshal ex_writer held_world)))
     = [Some (certsToSecret ex_certs ex_id)] \<and>
   records_of (new_calls empty_world (snd (overwrite ex_Marshal ex_writer empty_world)))
     = [Some (certsToSecret ex_certs ex_id)]"
proof -
  have h: "Secret ex_writer = Some ex_id" by (simp add: ex_writer_def)
  from produced_records_invariant [OF h, of ex_certs ex_Marshal held_world]
  have "core_record ex_id (Some (certsToSecret ex_certs ex_id))" by simp
  with h show ?thesis
    by (simp add: ex_write_held ex_overwrite_empty new_calls_def)
      (simp add: held_world_def empty_world_def)
qed

text \<open>
  C9. Error propagation. Outside dry-run mode read returns the error of Get as it is,
  except a not-found, which it wraps as notFoundError. An error of the generator is
  returned as it is by write and by overwrite, with a nil bundle. When the generator
  returns a bundle, write (outside dry-run mode) returns the error of Create as it is,
  except an already-exists, which it wraps as alreadyExistError, and overwrite returns
  the error of Update as it is, whatever its kind.
\<close>

theorem error_propagation:
  assumes "Client s = Some c" and "CertGenerator s = Some generate" and "Secret s = Some sec"
  shows "(\<not> dryrun s \<longrightarrow>
            (let secret = fst (fst (Get c sec zero_Secret (store st)));
                 err = snd (fst (Get c sec zero_Secret (store st)))
             in fst (read s st) =
                  Inr (if IsNotFound err then (None, Some (notFoundError err))
                       else (secretToCerts secret, err)))) \<and>
         (\<forall>e. snd (fst (generate (dnsName s) (gen_state st))) = Some e \<longrightarrow>
            fst (write yaml_Marshal s st) = Inr (None, Some e) \<and>
            fst (overwrite yaml_Marshal s st) = Inr (None, Some e)) \<and>
         (\<forall>certs. \<not> dryrun s \<and>
              fst (generate (dnsName s) (gen_state st)) = (Some certs, None) \<longrightarrow>
            (let err = fst (Create c (Some (certsToSecret certs sec)) (store st))
             in fst (write yaml_Marshal s st) =
                  Inr (if IsAlreadyExists err then (None, Some (alreadyExistError err))
                       else (Some certs, err))) \<and>
            (let err = fst (Update c (Some (certsToSecret certs sec)) (store st))
             in fst (overwrite yaml_Marshal s st) = Inr (Some certs, err)))"
proof -
  have rd: "\<not> dryrun s \<longrightarrow>
            (let secret = fst (fst (Get c sec zero_Secret (store st)));
                 err = snd (fst (Get c sec zero_Secret (store st)))
             in fst (read s st) =
                  Inr (if IsNotFound err then (None, Some (notFoundError err))
                       else (secretToCerts secret, err)))"
    using assms(1,3) by (simp add: read_def Let_def split: prod.splits)
  have gen: "fst (write yaml_Marshal s st) = Inr (None, Some e) \<and>
             fst (overwrite yaml_Marshal s st) = Inr (None, Some e)"
    if "snd (fst (generate (dnsName s) (gen_state st))) = Some e" for e
  proof -
    obtain certs err g' where g: "generate (dnsName s) (gen_state st) = ((certs, err), g')"
      by (metis prod.exhaust)
    with that have "generate (dnsName s) (gen_state st) = ((certs, Some e), g')"
      by simp
    from buildSecret_err [OF assms(2) this] show ?thesis
      by (simp add: write_def overwrite_def)
  qed
  have st: "(let err = fst (Create c (Some (certsToSecret certs sec)) (store st))
             in fst (write yaml_Marshal s st) =
                  Inr (if IsAlreadyExists err then (None, Some (alreadyExistError err))
                       else (Some certs, err))) \<and>
            (let err = fst (Update c (Some (certsToSecret certs sec)) (store st))
             in fst (overwrite yaml_Marshal s st) = Inr (Some certs, err))"
    if "\<not> dryrun s" and "fst (generate (dnsName s) (gen_state st)) = (Some certs, None)"
    for certs
  proof -
    obtain r g' where g: "generate (dnsName s) (gen_state st) = (r, g')"
      by (metis prod.exhaust)
    with that(2) have "generate (dnsName s) (gen_state st) = ((Some certs, None), g')"
      by simp
    from buildSecret_ok [OF assms(2,3) this] that(1) assms(1) show ?thesis
      by (simp add: write_def overwrite_def Let_def split: prod.splits)
  qed
  from rd gen st show ?thesis by blast
qed

theorem error_propagation_witness:
  "\<not> dryrun ex_writer \<and>
   fst (read ex_writer empty_world)
     = Inr (None, Some (notFoundError (Some (StatusError StatusReasonNotFound)))) \<and>
   fst (write ex_Marshal ex_writer held_world)
     = Inr (None, Some (alreadyExistError (Some (StatusError StatusReasonAlreadyExists)))) \<and>
   fst (overwrite ex_Marshal ex_writer empty_world)
     = Inr (Some ex_certs, Some (StatusError StatusReasonNotFound)) \<and>
   fst (write ex_Marshal (ex_writer\<lparr>CertGenerator := Some failing_generate\<rparr>) held_world)
     = Inr (None, Some (OtherError ''no entropy''))"
proof -
  let ?f = "ex_writer\<lparr>CertGenerator := Some failing_generate\<rparr>"
  have h: "Client ex_writer = Some mem_Client" "CertGenerator ex_writer = Some ex_generate"
    "Secret ex_writer = Some ex_id" "\<not> dryrun ex_writer"
    by (simp_all add: ex_writer_def)
  have hf: "Client ?f = Some mem_Client" "CertGenerator ?f = Some failing_generate"
    "Secret ?f = Some ex_id"
    by (simp_all add: ex_writer_def)
  have g: "fst (ex_generate (dnsName ex_writer) (gen_state st)) = (Some ex_certs, None)" for st
    by (simp add: ex_generate_def)
  have gf: "snd (fst (failing_generate (dnsName ?f) (gen_state held_world)))
              = Some (OtherError ''no entropy'')"
    by (simp add: failing_generate_def)
  have get: "Get mem_Client ex_id zero_Secret (store empty_world)
             = ((zero_Secret, Some (StatusError StatusReasonNotFound)), store empty_world)"
    by (simp add: mem_Client_def mem_Get_def empty_world_def)
  have cr: "Create mem_Client (Some (certsToSecret ex_certs ex_id)) (store held_world)
             = (Some (StatusError StatusReasonAlreadyExists), store held_world)"
    by (simp add: ex_defs)
  have up: "Update mem_Client (Some (certsToSecret ex_certs ex_id)) (store empty_world)
             = (Some (StatusError StatusReasonNotFound), store empty_world)"
    by (simp add: ex_defs)
  have 1: "fst (read ex_writer empty_world)
     = Inr (None, Some (notFoundError (Some (StatusError StatusReasonNotFound))))"
    and 2: "fst (overwrite ex_Marshal ex_writer empty_world)
     = Inr (Some ex_certs, Some (StatusError StatusReasonNotFound))"
    using h(4) get up error_propagation [OF h(1,2,3), of empty_world ex_Marshal]
    by (simp_all add: IsNotFound_def g)
  have 3: "fst (write ex_Marshal ex_writer held_world)
     = Inr (None, Some (alreadyExistError (Some (StatusError StatusReasonAlreadyExists))))"
    using h(4) cr error_propagation [OF h(1,2,3), of held_world ex_Marshal]
    by (simp add: IsAlreadyExists_def g)
  have 4: "fst (write ex_Marshal ?f held_world) = Inr (None, Some (OtherError ''no entropy''))"
    using gf error_propagation [OF hf, of held_world ex_Marshal]
    by simp
  from h(4) 1 2 3 4 show ?thesis by simp
qed

text \<open>
  C10. When the generator returns a bundle, write and overwrite return that bundle
  together with the error (or nil) of the later step: of Create or Update outside
  dry-run mode, of the marshaller or else of the sink in dry-run mode. The one exception
  is write outside dry-run mode when Create reports already-exists: then the bundle is
  nil.
\<close>

theorem bundle_with_later_error:
  assumes "CertGenerator s = Some generate" and "Secret s = Some sec"
    and "generate (dnsName s) (gen_state st) = ((Some certs, None), g')"
  shows "(\<forall>c. \<not> dryrun s \<and> Client s = Some c \<longrightarrow>
            (let err = fst (Create c (Some (certsToSecret certs sec)) (store st))
             in fst (write yaml_Marshal s st) =
                  Inr (if IsAlreadyExists err then None else Some certs,
                       if IsAlreadyExists err then Some (alreadyExistError err) else err)) \<and>
            fst (overwrite yaml_Marshal s st) =
              Inr (Some certs, fst (Update c (Some (certsToSecret certs sec)) (store st)))) \<and>
         (\<forall>wr. dryrun s \<and> Writer s = Some wr \<longrightarrow>
            (\<forall>op \<in> {write yaml_Marshal, overwrite yaml_Marshal}.
               fst (op s st) =
                 Inr (Some certs,
                      case yaml_Marshal (Some (certsToSecret certs sec)) of
                        (rendering, Some e) \<Rightarrow> Some e
                      | (rendering, None) \<Rightarrow> snd (fst (wr rendering (sink st))))))"
  by (simp add: write_def overwrite_def buildSecret_ok [OF assms] dryrunWrite_def Let_def
      split: prod.splits option.splits)

theorem bundle_with_later_error_witness:
  "\<not> dryrun ex_writer \<and>
   fst (overwrite ex_Marshal ex_writer empty_world)
     = Inr (Some ex_certs, Some (StatusError StatusReasonNotFound)) \<and>
   fst (write ex_Marshal ex_writer held_world)
     = Inr (None, Some (alreadyExistError (Some (StatusError StatusReasonAlreadyExists)))) \<and>
   fst (write ex_Marshal (ex_writer\<lparr>Writer := Some failing_sink, dryrun := True\<rparr>) held_world)
     = Inr (Some ex_certs, Some (OtherError ''closed pipe''))"
proof -
  let ?d = "ex_writer\<lparr>Writer := Some failing_sink, dryrun := True\<rparr>"
  have h: "CertGenerator ex_writer = Some ex_generate" "Secret ex_writer = Some ex_id"
    "\<not> dryrun ex_writer" "Client ex_writer = Some mem_Client"
    by (simp_all add: ex_writer_def)
  have hd: "CertGenerator ?d = Some ex_generate" "Secret ?d = Some ex_id"
    "dryrun ?d" "Writer ?d = Some failing_sink"
    by (simp_all add: ex_writer_def)
  have g: "ex_generate (dnsName ex_writer) (gen_state st) = ((Some ex_certs, None), Suc (gen_state st))"
    for st :: "(NamespacedName \<rightharpoonup> Secret, nat, byte list) world"
    by (simp add: ex_generate_def)
  have gd: "ex_generate (dnsName ?d) (gen_state held_world) = ((Some ex_certs, None), 1)"
    by (simp add: ex_generate_def held_world_def)
  have cr: "Create mem_Client (Some (certsToSecret ex_certs ex_id)) (store held_world)
             = (Some (StatusError StatusReasonAlreadyExists), store held_world)"
    by (simp add: ex_defs)
  have up: "Update mem_Client (Some (certsToSecret ex_certs ex_id)) (store empty_world)
             = (Some (StatusError StatusReasonNotFound), store empty_world)"
    by (simp add: ex_defs)
  have 1: "fst (overwrite ex_Marshal ex_writer empty_world)
     = Inr (Some ex_certs, Some (StatusError StatusReasonNotFound))"
    using bundle_with_later_error [OF h(1,2) g, of empty_world ex_Marshal] h(3,4) up
    by simp
  have 2: "fst (write ex_Marshal ex_writer held_world)
     = Inr (None, Some (alreadyExistError (Some (StatusError StatusReasonAlreadyExists))))"
    using bundle_with_later_error [OF h(1,2) g, of held_world ex_Marshal] h(3,4) cr
    by (simp add: IsAlreadyExists_def)
  have 3: "fst (write ex_Marshal ?d held_world)
     = Inr (Some ex_certs, Some (OtherError ''closed pipe''))"
    using bundle_with_later_error [OF hd(1,2) gd, of ex_Marshal] hd(3,4) ex_rendering
    by (simp add: failing_sink_def)
  from h(3) 1 2 3 show ?thesis by simp
qed

end
